theory Spec2Isabelle
  imports Main "HOL-Library.Sublist" "HOL-Library.Multiset" "HOL-Library.Log_Nat"
begin

section \<open>User ranking panel: metric selection state (UserSidebar.tsx)\<close>

text \<open>
  The component keeps two pieces of state that the metric popover edits:
  \<^verbatim>\<open>selectedDimensions\<close> (a string array, initially \<^verbatim>\<open>['timeSpent']\<close>) and
  \<^verbatim>\<open>activeSortDimension\<close> (a string, initially \<^verbatim>\<open>'timeSpent'\<close>).
\<close>

record sidebar_state =
  selectedDimensions :: "string list"
  activeSortDimension :: string

definition initial_sidebar :: sidebar_state where
  "initial_sidebar =
     \<lparr>selectedDimensions = [''timeSpent''], activeSortDimension = ''timeSpent''\<rparr>"

text \<open>The argument of the checkbox callback: \<^verbatim>\<open>boolean | 'indeterminate'\<close>.\<close>

datatype checked_state = CheckedTrue | CheckedFalse | Indeterminate

text \<open>
  The body of \<^verbatim>\<open>onCheckedChange\<close> for the row of metric \<open>m\<close>: a check appends the
  metric, an uncheck filters it out unless it is the active sort metric.
\<close>

definition onCheckedChange :: "string \<Rightarrow> checked_state \<Rightarrow> sidebar_state \<Rightarrow> sidebar_state" where
  "onCheckedChange m checked st =
     (if checked = CheckedTrue then
        st\<lparr>selectedDimensions := selectedDimensions st @ [m]\<rparr>
      else if m \<noteq> activeSortDimension st then
        st\<lparr>selectedDimensions := filter (\<lambda>d. d \<noteq> m) (selectedDimensions st)\<rparr>
      else st)"

text \<open>\<^verbatim>\<open>disabled={isSorting && selectedDimensions.length === 1}\<close> on the checkbox.\<close>

definition checkbox_disabled :: "string \<Rightarrow> sidebar_state \<Rightarrow> bool" where
  "checkbox_disabled m st =
     (activeSortDimension st = m \<and> length (selectedDimensions st) = 1)"

text \<open>
  The body of the Sort button's \<^verbatim>\<open>onClick\<close>: it sets the sort metric (and closes the
  popover, which is not part of this state). It does not touch \<^verbatim>\<open>selectedDimensions\<close>.
\<close>

definition sortOnClick :: "string \<Rightarrow> sidebar_state \<Rightarrow> sidebar_state" where
  "sortOnClick m st = st\<lparr>activeSortDimension := m\<rparr>"

text \<open>\<^verbatim>\<open>disabled={!isSelected}\<close> on the Sort button.\<close>

definition sort_disabled :: "string \<Rightarrow> sidebar_state \<Rightarrow> bool" where
  "sort_disabled m st = (m \<notin> set (selectedDimensions st))"

text \<open>
  What the user can do in the popover. A disabled control does not run its handler, so
  the event leaves the state as it is.
\<close>

datatype sidebar_event = CheckedChange string checked_state | SortClick string

fun sidebar_step :: "sidebar_state \<Rightarrow> sidebar_event \<Rightarrow> sidebar_state" where
  "sidebar_step st (CheckedChange m checked) =
     (if checkbox_disabled m st then st else onCheckedChange m checked st)"
| "sidebar_step st (SortClick m) =
     (if sort_disabled m st then st else sortOnClick m st)"

definition sidebar_run :: "sidebar_event list \<Rightarrow> sidebar_state" where
  "sidebar_run evs = foldl sidebar_step initial_sidebar evs"

definition sort_in_selection :: "sidebar_state \<Rightarrow> bool" where
  "sort_in_selection st = (activeSortDimension st \<in> set (selectedDimensions st))"


section \<open>User ranking panel: filter, sort and rank (UserSidebar.tsx)\<close>

text \<open>
  \<^verbatim>\<open>type User = { id: number; username: string; name: string; avatarUrl: string;
  rank?: number; metrics: { [key: string]: number } }\<close>. The metric values are
  integers (the mock data is made of \<^verbatim>\<open>Math.floor\<close> results), so the comparator's
  subtraction is exact and is done on \<open>int\<close>. A key that the \<^verbatim>\<open>metrics\<close> object does
  not have reads as \<^verbatim>\<open>undefined\<close>: the object is a partial map.
\<close>

record user =
  id' :: int
  username :: string
  name :: string
  avatarUrl :: string
  rank :: "nat option"
  metrics :: "string \<rightharpoonup> int"

text \<open>\<^verbatim>\<open>x || 0\<close> on a number that may be undefined (or null): zero stays zero.\<close>

definition or_zero :: "int option \<Rightarrow> int" where
  "or_zero v = (case v of None \<Rightarrow> 0 | Some n \<Rightarrow> n)"

text \<open>
  \<^verbatim>\<open>String.prototype.includes\<close>: the argument occurs as a contiguous run of the
  receiver.
\<close>

fun js_includes :: "'a list \<Rightarrow> 'a list \<Rightarrow> bool" where
  "js_includes [] sub = (sub = [])"
| "js_includes (c # cs) sub = (prefix sub (c # cs) \<or> js_includes cs sub)"

text \<open>
  \<^verbatim>\<open>Array.prototype.sort(compareFn)\<close>. ECMAScript (2019 and later) requires the sort
  to be stable, and for a consistent comparator every stable sort returns the same
  array; the engine's algorithm is therefore modelled by a stable insertion sort driven
  by the comparator: \<open>x\<close> goes before the first \<open>y\<close> with \<open>compareFn(x, y) \<le> 0\<close>, so among
  elements that compare equal the earlier one stays first.
\<close>

fun js_insert :: "('a \<Rightarrow> 'a \<Rightarrow> int) \<Rightarrow> 'a \<Rightarrow> 'a list \<Rightarrow> 'a list" where
  "js_insert cmp x [] = [x]"
| "js_insert cmp x (y # ys) = (if cmp x y \<le> 0 then x # y # ys else y # js_insert cmp x ys)"

definition js_sort :: "('a \<Rightarrow> 'a \<Rightarrow> int) \<Rightarrow> 'a list \<Rightarrow> 'a list" where
  "js_sort cmp xs = foldr (js_insert cmp) xs []"

text \<open>
  \<^verbatim>\<open>String.prototype.toLowerCase\<close> belongs to the host; the component is modelled for
  any lower-casing function \<open>lc\<close>. \<open>ascii_toLowerCase\<close> is the function on ASCII text,
  used where a concrete run is evaluated.
\<close>

definition ascii_toLowerCase :: "string \<Rightarrow> string" where
  "ascii_toLowerCase s =
     map (\<lambda>c. if (65::nat) \<le> of_char c \<and> of_char c \<le> (90::nat)
              then char_of (of_char c + (32::nat)) else c) s"

text \<open>The predicate of \<^verbatim>\<open>users.filter(...)\<close>.\<close>

definition user_matches :: "(string \<Rightarrow> string) \<Rightarrow> string \<Rightarrow> user \<Rightarrow> bool" where
  "user_matches lc searchQuery u =
     (js_includes (lc (username u)) (lc searchQuery) \<or> js_includes (lc (name u)) (lc searchQuery))"

text \<open>The comparator: \<^verbatim>\<open>(b.metrics[k] || 0) - (a.metrics[k] || 0)\<close>.\<close>

definition metric_cmp :: "string \<Rightarrow> user \<Rightarrow> user \<Rightarrow> int" where
  "metric_cmp k a b = or_zero (metrics b k) - or_zero (metrics a k)"

definition filteredAndSortedUsers ::
    "(string \<Rightarrow> string) \<Rightarrow> user list \<Rightarrow> string \<Rightarrow> string \<Rightarrow> user list" where
  "filteredAndSortedUsers lc users searchQuery k =
     js_sort (metric_cmp k) (filter (user_matches lc searchQuery) users)"

text \<open>\<^verbatim>\<open>filteredAndSortedUsers.map((user, index) => ({...user, rank: index + 1}))\<close>.\<close>

definition with_rank :: "user \<times> nat \<Rightarrow> user" where
  "with_rank p = (fst p)\<lparr>rank := Some (snd p + 1)\<rparr>"

definition rankedUsers ::
    "(string \<Rightarrow> string) \<Rightarrow> user list \<Rightarrow> string \<Rightarrow> string \<Rightarrow> user list" where
  "rankedUsers lc users searchQuery k =
     (let fs = filteredAndSortedUsers lc users searchQuery k
      in map with_rank (zip fs [0..<length fs]))"

text \<open>Every field of a user but the rank.\<close>

definition unranked :: "user \<Rightarrow> int \<times> string \<times> string \<times> string \<times> (string \<rightharpoonup> int)" where
  "unranked u = (id' u, username u, name u, avatarUrl u, metrics u)"

text \<open>The value the sort orders by.\<close>

definition sort_value :: "string \<Rightarrow> user \<Rightarrow> int" where
  "sort_value k u = or_zero (metrics u k)"

text \<open>The users of the specification's stability example, with metric \<open>m\<close>.\<close>

definition example_user :: "int \<Rightarrow> int \<Rightarrow> user" where
  "example_user i v =
     \<lparr>id' = i, username = ''u'', name = ''U'', avatarUrl = [], rank = None,
      metrics = [''m'' \<mapsto> v]\<rparr>"

definition example_users :: "user list" where
  "example_users = [example_user 1 5, example_user 2 5, example_user 3 9]"


section \<open>JavaScript numbers (WalletTracker: lamports and SOL)\<close>

text \<open>
  A JavaScript number is an IEEE 754 double. The wallet code divides lamport counts by
  \<^verbatim>\<open>LAMPORTS_PER_SOL\<close>, subtracts the quotients, compares the difference with 0 and
  prints it with \<^verbatim>\<open>toFixed(4)\<close>. A finite double is modelled by the rational number
  it denotes, and every operation rounds its exact result to the nearest double, ties to
  the even significand (53 bits). \<^verbatim>\<open>NaN\<close> is kept apart: it is what arithmetic on
  \<^verbatim>\<open>undefined\<close> yields. The exponent range is not modelled: the quantities here are
  quotients and differences of lamport counts (64-bit integers) by \<open>10\<^sup>9\<close>, far from
  overflow and from the subnormal range; for the same reason no infinity and no negative
  zero arises.
\<close>

datatype number = NaN | Fin rat

text \<open>The exponent \<open>e\<close> with \<open>2\<^sup>e \<le> |q| < 2\<^sup>e\<^sup>+\<^sup>1\<close>, for \<open>q \<noteq> 0\<close>.\<close>

definition binade :: "rat \<Rightarrow> int" where
  "binade q =
     (let e0 = bitlen (fst (quotient_of \<bar>q\<bar>)) - bitlen (snd (quotient_of \<bar>q\<bar>))
      in if 2 powi e0 \<le> \<bar>q\<bar> then e0 else e0 - 1)"

definition round_half_even :: "rat \<Rightarrow> int" where
  "round_half_even x =
     (let f = \<lfloor>x\<rfloor>; r = x - of_int f
      in if r < 1 / 2 then f else if 1 / 2 < r then f + 1 else if even f then f else f + 1)"

definition round_double :: "rat \<Rightarrow> rat" where
  "round_double q =
     (if q = 0 then 0
      else of_int (round_half_even (q / 2 powi (binade q - 52))) * 2 powi (binade q - 52))"

definition LAMPORTS_PER_SOL :: rat where
  "LAMPORTS_PER_SOL = 1000000000"

text \<open>\<^verbatim>\<open>x / LAMPORTS_PER_SOL\<close>.\<close>

fun per_sol :: "number \<Rightarrow> number" where
  "per_sol NaN = NaN"
| "per_sol (Fin a) = Fin (round_double (a / LAMPORTS_PER_SOL))"

text \<open>\<^verbatim>\<open>a - b\<close>.\<close>

fun js_sub :: "number \<Rightarrow> number \<Rightarrow> number" where
  "js_sub (Fin a) (Fin b) = Fin (round_double (a - b))"
| "js_sub NaN b = NaN"
| "js_sub a NaN = NaN"

text \<open>
  \<^verbatim>\<open>Number.prototype.toFixed(4)\<close> (ECMAScript, for a magnitude below \<open>10\<^sup>2\<^sup>1\<close>): a
  \<^verbatim>\<open>NaN\<close> prints as \<^verbatim>\<open>"NaN"\<close>; otherwise the sign is split off, \<open>n\<close> is the integer
  for which \<open>n / 10\<^sup>4\<close> is closest to the magnitude (the larger one of two), its decimal
  digits are padded with zeros to five and the point goes before the last four.
\<close>

definition digit_char :: "int \<Rightarrow> char" where
  "digit_char d =
     (if d = 0 then CHR ''0'' else if d = 1 then CHR ''1'' else if d = 2 then CHR ''2''
      else if d = 3 then CHR ''3'' else if d = 4 then CHR ''4'' else if d = 5 then CHR ''5''
      else if d = 6 then CHR ''6'' else if d = 7 then CHR ''7'' else if d = 8 then CHR ''8''
      else CHR ''9'')"

function decimal :: "int \<Rightarrow> string" where
  "decimal n = (if n < 10 then [digit_char n] else decimal (n div 10) @ [digit_char (n mod 10)])"
  by pat_completeness auto
termination
  by (relation "measure nat") auto

declare decimal.simps [simp del]

definition toFixed_digits :: "string \<Rightarrow> string" where
  "toFixed_digits m =
     (let z = replicate (5 - length m) CHR ''0'' @ m
      in take (length z - 4) z @ ''.'' @ drop (length z - 4) z)"

fun toFixed4 :: "number \<Rightarrow> string" where
  "toFixed4 NaN = ''NaN''"
| "toFixed4 (Fin x) =
     (if x < 0 then ''-'' else []) @ toFixed_digits (decimal \<lfloor>\<bar>x\<bar> * 10000 + 1 / 2\<rfloor>)"

text \<open>
  \<^verbatim>\<open>xs[index]\<close> read as a number: an index past the end reads \<^verbatim>\<open>undefined\<close>, which
  arithmetic turns into \<^verbatim>\<open>NaN\<close>. The balances are lamport counts; a count below
  \<open>2\<^sup>5\<^sup>3\<close> is a double as it stands.
\<close>

definition number_at :: "nat list \<Rightarrow> nat \<Rightarrow> number" where
  "number_at xs index = (if index < length xs then Fin (of_nat (xs ! index)) else NaN)"


section \<open>Wallet tracker: the data of the RPC collaborator\<close>

text \<open>
  The \<^verbatim>\<open>err\<close> field of a signature record and of the transaction metadata is typed
  \<^verbatim>\<open>TransactionError | null\<close>, where a \<^verbatim>\<open>TransactionError\<close> is an object or a string.
\<close>

datatype tx_err = JNull | JUndefined | JString string | JObject

fun truthy :: "tx_err \<Rightarrow> bool" where
  "truthy JNull = False"
| "truthy JUndefined = False"
| "truthy (JString s) = (s \<noteq> [])"
| "truthy JObject = True"

text \<open>\<^verbatim>\<open>ConfirmedSignatureInfo\<close>: the fields the code reads.\<close>

record signature_info =
  sig_signature :: string
  sig_blockTime :: "int option"
  sig_err :: tx_err

text \<open>
  \<^verbatim>\<open>ParsedTransactionWithMeta\<close>, as far as the code reads it. Instructions are
  passed through untouched and stay opaque. An account key is given by the text its
  \<^verbatim>\<open>pubkey.toString()\<close> yields. \<^verbatim>\<open>transaction_message\<close> is \<^verbatim>\<open>tx.transaction?.message\<close>.
\<close>

typedecl instruction

record account_key =
  pubkey :: string

record parsed_meta =
  meta_err :: tx_err
  logMessages :: "string list option"
  preBalances :: "nat list option"
  postBalances :: "nat list option"
  innerInstructions :: "instruction list list option"

record tx_message =
  accountKeys :: "account_key list"
  instructions :: "instruction list"

record parsed_tx =
  meta :: "parsed_meta option"
  transaction_message :: "tx_message option"


section \<open>Wallet tracker: the structural classifier (parseTransactionType)\<close>

text \<open>
  \<^verbatim>\<open>parseTransactionType\<close> of WalletTracker.tsx, the same in the batched variant
  of the component.
\<close>

record balance_change =
  account :: string
  change :: string

text \<open>
  The object the classifier returns: \<^verbatim>\<open>{ description }\<close> alone, or with \<^verbatim>\<open>accounts\<close>,
  \<^verbatim>\<open>balanceChanges\<close>, \<^verbatim>\<open>logs\<close> and \<^verbatim>\<open>instructions\<close> (here \<open>parsedInstructions\<close>).
\<close>

record tx_type =
  description :: string
  accounts :: "string list option"
  balanceChanges :: "balance_change list option"
  logs :: "string list option"
  parsedInstructions :: "instruction list option"

text \<open>
  The callback of \<^verbatim>\<open>accounts.map((account, index) => ...)\<close>: the balance change of one
  account, or \<^verbatim>\<open>null\<close>. \<^verbatim>\<open>change !== 0\<close> holds for \<^verbatim>\<open>NaN\<close>.
\<close>

definition sol_change :: "nat list \<Rightarrow> nat list \<Rightarrow> nat \<Rightarrow> number" where
  "sol_change pre post index =
     js_sub (per_sol (number_at post index)) (per_sol (number_at pre index))"

definition balance_change_at :: "nat list \<Rightarrow> nat list \<Rightarrow> string \<times> nat \<Rightarrow> balance_change option" where
  "balance_change_at pre post p =
     (if sol_change pre post (snd p) \<noteq> Fin 0
      then Some \<lparr>account = fst p, change = toFixed4 (sol_change pre post (snd p))\<rparr>
      else None)"

text \<open>\<^verbatim>\<open>xs.map(f).filter(Boolean)\<close> for a callback that returns an object or \<^verbatim>\<open>null\<close>.\<close>

definition map_non_null :: "('a \<Rightarrow> 'b option) \<Rightarrow> 'a list \<Rightarrow> 'b list" where
  "map_non_null f xs = map the (filter (\<lambda>r. r \<noteq> None) (map f xs))"

definition with_index :: "'a list \<Rightarrow> ('a \<times> nat) list" where
  "with_index xs = zip xs [0..<length xs]"

definition or_empty :: "'a list option \<Rightarrow> 'a list" where
  "or_empty xs = (case xs of None \<Rightarrow> [] | Some ys \<Rightarrow> ys)"

definition parseTransactionType :: "parsed_tx \<Rightarrow> tx_type" where
  "parseTransactionType tx =
     (case (meta tx, transaction_message tx) of
        (Some m, Some msg) \<Rightarrow>
          (let parsed = (case innerInstructions m of
                           Some (first # rest) \<Rightarrow> first
                         | _ \<Rightarrow> instructions msg);
               accs = map pubkey (accountKeys msg);
               pre = or_empty (preBalances m);
               post = or_empty (postBalances m)
           in \<lparr>description = ''Transaction Details'',
               accounts = Some accs,
               balanceChanges = Some (map_non_null (balance_change_at pre post) (with_index accs)),
               logs = Some (filter (\<lambda>log. \<not> js_includes log ''Program log:'')
                              (or_empty (logMessages m))),
               parsedInstructions = Some parsed\<rparr>)
      | _ \<Rightarrow>
          \<lparr>description = ''Unknown Transaction'', accounts = None, balanceChanges = None,
           logs = None, parsedInstructions = None\<rparr>)"


text \<open>
  A transaction as the RPC gives it for a list of accounts with their balances before and
  after, without logs and instructions: for concrete runs of the classifier.
\<close>

definition balances_tx :: "string list \<Rightarrow> nat list \<Rightarrow> nat list \<Rightarrow> parsed_tx" where
  "balances_tx accs pre post =
     \<lparr>meta = Some \<lparr>meta_err = JNull, logMessages = Some [], preBalances = Some pre,
                   postBalances = Some post, innerInstructions = None\<rparr>,
      transaction_message =
        Some \<lparr>accountKeys = map (\<lambda>a. \<lparr>pubkey = a\<rparr>) accs, instructions = []\<rparr>\<rparr>"

section \<open>Wallet tracker: the heuristic classifier\<close>

text \<open>
  The variant of \<^verbatim>\<open>parseTransactionType\<close> that returns a description string (the
  third source text in UserSidebar.tsx). \<open>join_space\<close> is \<^verbatim>\<open>logMessages.join(' ')\<close>.
\<close>

fun join_space :: "string list \<Rightarrow> string" where
  "join_space [] = []"
| "join_space [x] = x"
| "join_space (x # y # ys) = x @ '' '' @ join_space (y # ys)"

text \<open>
  The regular expression engine is the host's: \<open>matchAll\<close> stands for
  \<^verbatim>\<open>[...logs.matchAll(amountPattern)]\<close> and gives, for each match, its two groups (the
  amount and the token). The classifier is modelled for any such function.
\<close>

definition parseTransactionType_heuristic ::
    "(string \<Rightarrow> (string \<times> string) list) \<Rightarrow> parsed_tx \<Rightarrow> string" where
  "parseTransactionType_heuristic matchAll tx =
     (case (case meta tx of None \<Rightarrow> None | Some m \<Rightarrow> logMessages m) of
        None \<Rightarrow> ''Unknown Transaction''
      | Some msgs \<Rightarrow>
          (let logs = join_space msgs in
           if js_includes logs ''Swap'' then
             (case matchAll logs of
                m1 # m2 # rest \<Rightarrow>
                  ''Swapped '' @ fst m1 @ '' '' @ snd m1 @ '' for '' @ fst m2 @ '' '' @ snd m2
              | _ \<Rightarrow> ''Token Swap'')
           else if js_includes logs ''Transfer'' then
             (case matchAll logs of
                amount # rest \<Rightarrow> ''Transferred '' @ fst amount @ '' '' @ snd amount
              | [] \<Rightarrow> ''Token Transfer'')
           else if js_includes logs ''Deposit'' then ''Deposit''
           else if js_includes logs ''Withdraw'' then ''Withdrawal''
           else if js_includes logs ''Stake'' then ''Staking''
           else if js_includes logs ''Create'' then ''Account Creation''
           else if js_includes logs ''Close'' then ''Account Closure''
           else ''Transaction''))"

text \<open>
  The specification's reading: the triggers in their priority order and the label of
  each; the trigger of a log text is the first of the list that occurs in it.
\<close>

definition keyword_triggers :: "string list" where
  "keyword_triggers =
     [''Swap'', ''Transfer'', ''Deposit'', ''Withdraw'', ''Stake'', ''Create'', ''Close'']"

definition swap_label :: "(string \<times> string) list \<Rightarrow> string" where
  "swap_label ms =
     (case ms of
        m1 # m2 # rest \<Rightarrow>
          ''Swapped '' @ fst m1 @ '' '' @ snd m1 @ '' for '' @ fst m2 @ '' '' @ snd m2
      | _ \<Rightarrow> ''Token Swap'')"

definition transfer_label :: "(string \<times> string) list \<Rightarrow> string" where
  "transfer_label ms =
     (case ms of
        amount # rest \<Rightarrow> ''Transferred '' @ fst amount @ '' '' @ snd amount
      | [] \<Rightarrow> ''Token Transfer'')"

definition trigger_label :: "(string \<times> string) list \<Rightarrow> string option \<Rightarrow> string" where
  "trigger_label ms t =
     (if t = Some ''Swap'' then swap_label ms
      else if t = Some ''Transfer'' then transfer_label ms
      else if t = Some ''Deposit'' then ''Deposit''
      else if t = Some ''Withdraw'' then ''Withdrawal''
      else if t = Some ''Stake'' then ''Staking''
      else if t = Some ''Create'' then ''Account Creation''
      else if t = Some ''Close'' then ''Account Closure''
      else ''Transaction'')"

definition logs_tx :: "string list \<Rightarrow> parsed_tx" where
  "logs_tx msgs =
     \<lparr>meta = Some \<lparr>meta_err = JNull, logMessages = Some msgs, preBalances = None,
                   postBalances = None, innerInstructions = None\<rparr>,
      transaction_message = None\<rparr>"


section \<open>Wallet tracker: fetchWalletData (the batched variant)\<close>

text \<open>
  What \<^verbatim>\<open>catch (err)\<close> receives: a thrown error, of which the code reads
  \<^verbatim>\<open>err.message\<close>.
\<close>

datatype js_error = Error (message: string)

text \<open>
  The collaborators of the fetch, as an interface: the \<^verbatim>\<open>PublicKey\<close> constructor (it
  throws on a malformed address), the three requests of the RPC connection (each either
  throws or resolves; \<^verbatim>\<open>getAccountInfo\<close> resolves to the account's lamports or to
  \<^verbatim>\<open>null\<close>), and the locale's rendering of a date given in milliseconds. \<open>'k\<close> is the
  type of decoded keys. A request is a function of its arguments: what the collaborator
  answers does not change during one fetch.
\<close>

record 'k rpc =
  newPublicKey :: "string \<Rightarrow> js_error + 'k"
  getAccountInfo :: "'k \<Rightarrow> js_error + nat option"
  getConfirmedSignaturesForAddress2 :: "'k \<Rightarrow> nat \<Rightarrow> js_error + signature_info list"
  getParsedTransaction :: "string \<Rightarrow> js_error + parsed_tx option"
  toLocaleString :: "int \<Rightarrow> string"

text \<open>What the fetch does to the outside, in the order it does it.\<close>

datatype 'k effect =
    GetAccountInfo 'k
  | GetConfirmedSignaturesForAddress2 'k nat
  | GetParsedTransaction string
  | Sleep nat

text \<open>
  The records of the transaction list. The simple variant (WalletTracker.tsx) builds
  \<^verbatim>\<open>{signature, timestamp, successful, type}\<close>; the batched variant adds
  \<^verbatim>\<open>blockTime\<close>.
\<close>

record simple_trade =
  signature :: string
  timestamp :: string
  successful :: bool
  type' :: tx_type

record trade = simple_trade +
  blockTime :: int

text \<open>\<^verbatim>\<open>sig.blockTime ? new Date(sig.blockTime * 1000).toLocaleString() : 'Unknown time'\<close>.\<close>

definition timestamp_of :: "'k rpc \<Rightarrow> signature_info \<Rightarrow> string" where
  "timestamp_of r s =
     (case sig_blockTime s of
        None \<Rightarrow> ''Unknown time''
      | Some t \<Rightarrow> if t = 0 then ''Unknown time'' else toLocaleString r (t * 1000))"

text \<open>
  The callback of \<^verbatim>\<open>batch.map(async (sig) => ...)\<close> in the batched variant: a request
  that throws is caught and gives \<^verbatim>\<open>null\<close>, and so does a \<^verbatim>\<open>null\<close> body. On a body
  of the declared type the classifier itself does not throw.
\<close>

definition fetchTransaction :: "'k rpc \<Rightarrow> signature_info \<Rightarrow> trade option" where
  "fetchTransaction r s =
     (case getParsedTransaction r (sig_signature s) of
        Inl err \<Rightarrow> None
      | Inr None \<Rightarrow> None
      | Inr (Some tx) \<Rightarrow>
          Some \<lparr>signature = sig_signature s,
                timestamp = timestamp_of r s,
                successful = (\<not> truthy (sig_err s)),
                type' = parseTransactionType tx,
                blockTime = or_zero (sig_blockTime s)\<rparr>)"

text \<open>
  The same callback in the simple variant (WalletTracker.tsx): the success flag is
  \<^verbatim>\<open>tx.meta?.err === null\<close>, and \<^verbatim>\<open>undefined === null\<close> is false.
\<close>

definition fetchTransaction_simple :: "'k rpc \<Rightarrow> signature_info \<Rightarrow> simple_trade option" where
  "fetchTransaction_simple r s =
     (case getParsedTransaction r (sig_signature s) of
        Inl err \<Rightarrow> None
      | Inr None \<Rightarrow> None
      | Inr (Some tx) \<Rightarrow>
          Some \<lparr>signature = sig_signature s,
                timestamp = timestamp_of r s,
                successful = (case meta tx of None \<Rightarrow> False | Some m \<Rightarrow> meta_err m = JNull),
                type' = parseTransactionType tx\<rparr>)"

definition batchSize :: nat where
  "batchSize = 25"

text \<open>
  The loop \<^verbatim>\<open>for (let i = 0; i < allSignatures.length; i += batchSize)\<close>. A round
  requests the bodies of \<^verbatim>\<open>allSignatures.slice(i, i + batchSize)\<close> in array order,
  \<^verbatim>\<open>Promise.all\<close> gives the results in that order, the non-null ones are pushed, and a
  pause of 100 ms follows unless the round was the last.
\<close>

function batch_loop ::
    "'k rpc \<Rightarrow> signature_info list \<Rightarrow> nat \<Rightarrow> trade list \<Rightarrow> 'k effect list
      \<Rightarrow> trade list \<times> 'k effect list" where
  "batch_loop r allSignatures i allTransactions eff =
     (if i < length allSignatures then
        batch_loop r allSignatures (i + batchSize)
          (allTransactions
             @ map_non_null (fetchTransaction r) (take batchSize (drop i allSignatures)))
          (eff
             @ map (\<lambda>s. GetParsedTransaction (sig_signature s))
                 (take batchSize (drop i allSignatures))
             @ (if i + batchSize < length allSignatures then [Sleep 100] else []))
      else (allTransactions, eff))"
  by pat_completeness auto
termination
  by (relation "measure (\<lambda>(r, allSignatures, i, allTransactions, eff). length allSignatures - i)")
     (auto simp: batchSize_def)

declare batch_loop.simps [simp del]

text \<open>
  The comparator \<^verbatim>\<open>(a, b) => (b.blockTime || 0) - (a.blockTime || 0)\<close>. Block times are
  integers (seconds), so the subtraction is exact, and \<^verbatim>\<open>x || 0\<close> leaves an integer
  as it is.
\<close>

definition blockTime_cmp :: "trade \<Rightarrow> trade \<Rightarrow> int" where
  "blockTime_cmp a b = blockTime b - blockTime a"

text \<open>The component's state that the fetch writes.\<close>

record wallet_state =
  balance :: "number option"
  trades :: "trade list"
  loading :: bool
  error :: string

text \<open>
  The body of the \<^verbatim>\<open>try\<close> block: the state it has reached, the effects so far, and
  the error if a step threw. The last \<^verbatim>\<open>.filter(tx => tx !== null)\<close> keeps every
  element, since only non-null records were pushed.
\<close>

definition try_block ::
    "'k rpc \<Rightarrow> string \<Rightarrow> wallet_state \<Rightarrow> js_error option \<times> wallet_state \<times> 'k effect list" where
  "try_block r addressInput st0 =
     (let st1 = st0\<lparr>loading := True, error := [], trades := []\<rparr> in
      case newPublicKey r addressInput of
        Inl err \<Rightarrow> (Some err, st1, [])
      | Inr pubKey \<Rightarrow>
          (case getAccountInfo r pubKey of
             Inl err \<Rightarrow> (Some err, st1, [GetAccountInfo pubKey])
           | Inr accountInfo \<Rightarrow>
               (let st2 = st1\<lparr>balance :=
                            Some (case accountInfo of
                                    Some lamports \<Rightarrow> per_sol (Fin (of_nat lamports))
                                  | None \<Rightarrow> Fin 0)\<rparr>;
                    eff2 = [GetAccountInfo pubKey, GetConfirmedSignaturesForAddress2 pubKey 1000]
                in case getConfirmedSignaturesForAddress2 r pubKey 1000 of
                     Inl err \<Rightarrow> (Some err, st2, eff2)
                   | Inr allSignatures \<Rightarrow>
                       if length allSignatures = 0 then (None, st2, eff2)
                       else
                         (let res = batch_loop r allSignatures 0 [] eff2
                          in (None,
                              st2\<lparr>trades := js_sort blockTime_cmp (filter (\<lambda>tx. True) (fst res))\<rparr>,
                              snd res)))))"

text \<open>\<^verbatim>\<open>fetchWalletData\<close>: the \<^verbatim>\<open>try\<close> block, its \<^verbatim>\<open>catch\<close> and its \<^verbatim>\<open>finally\<close>.\<close>

definition fetchWalletData ::
    "'k rpc \<Rightarrow> string \<Rightarrow> wallet_state \<Rightarrow> wallet_state \<times> 'k effect list" where
  "fetchWalletData r addressInput st0 =
     (case try_block r addressInput st0 of
        (Some err, st, eff) \<Rightarrow>
          (st\<lparr>error := message err, balance := None, trades := [], loading := False\<rparr>, eff)
      | (None, st, eff) \<Rightarrow> (st\<lparr>loading := False\<rparr>, eff))"

text \<open>A signature whose transaction body resolves (no throw, no \<^verbatim>\<open>null\<close>).\<close>

definition resolved :: "'k rpc \<Rightarrow> signature_info \<Rightarrow> bool" where
  "resolved r s =
     (case getParsedTransaction r (sig_signature s) of Inr (Some tx) \<Rightarrow> True | _ \<Rightarrow> False)"

text \<open>
  A test double of the collaborators, for concrete runs: an address shorter than 32
  characters does not decode; the account holds 1.5 SOL; there are five signatures, of
  which \<open>s1\<close> and \<open>s5\<close> have the same block time and \<open>s2\<close> and \<open>s4\<close> have none; the
  body of \<open>s2\<close> fails to load.
\<close>

definition demo_tx :: parsed_tx where
  "demo_tx = \<lparr>meta = None, transaction_message = None\<rparr>"

definition demo_signatures :: "signature_info list" where
  "demo_signatures =
     [\<lparr>sig_signature = ''s1'', sig_blockTime = Some 100, sig_err = JNull\<rparr>,
      \<lparr>sig_signature = ''s2'', sig_blockTime = None, sig_err = JNull\<rparr>,
      \<lparr>sig_signature = ''s3'', sig_blockTime = Some 200, sig_err = JObject\<rparr>,
      \<lparr>sig_signature = ''s4'', sig_blockTime = None, sig_err = JNull\<rparr>,
      \<lparr>sig_signature = ''s5'', sig_blockTime = Some 100, sig_err = JNull\<rparr>]"

definition demo_rpc :: "string rpc" where
  "demo_rpc =
     \<lparr>newPublicKey = (\<lambda>a. if length a < 32 then Inl (Error ''Invalid public key input'') else Inr a),
      getAccountInfo = (\<lambda>k. Inr (Some 1500000000)),
      getConfirmedSignaturesForAddress2 = (\<lambda>k n. Inr demo_signatures),
      getParsedTransaction = (\<lambda>s. if s = ''s2'' then Inl (Error ''429 Too Many Requests'')
                                    else Inr (Some demo_tx)),
      toLocaleString = (\<lambda>ms. ''date'')\<rparr>"

definition demo_address :: string where
  "demo_address = ''7C4jsPZpht42Tw6MjXWF56Q5RQUocjBBmciEjDa8HRtp''"

definition initial_wallet :: wallet_state where
  "initial_wallet = \<lparr>balance = None, trades = [], loading = False, error = []\<rparr>"


section \<open>Properties of the metric selection state\<close>

lemma sort_in_selection_step:
  "sort_in_selection st \<Longrightarrow> sort_in_selection (sidebar_step st ev)"
  by (cases ev)
     (auto simp: sort_in_selection_def onCheckedChange_def sortOnClick_def sort_disabled_def)

lemma sort_in_selection_foldl:
  "sort_in_selection st \<Longrightarrow> sort_in_selection (foldl sidebar_step st evs)"
  by (induction evs arbitrary: st) (simp_all add: sort_in_selection_step)

lemma sort_in_selection_run: "sort_in_selection (sidebar_run evs)"
  unfolding sidebar_run_def
  by (rule sort_in_selection_foldl) (simp add: sort_in_selection_def initial_sidebar_def)

text \<open>
  C1, as the specification states it, fails on the code in two places. State
  \<open>selectedDimensions = [timeSpent, revenue]\<close> with sort metric \<open>timeSpent\<close>: the checkbox
  of \<open>timeSpent\<close> is enabled, removing it would leave \<open>revenue\<close> selected, and yet the
  uncheck is refused. In the initial state the Sort button of the unselected metric
  \<open>revenue\<close> is disabled, so the sort metric cannot be changed to it; and the handler
  itself, were it to run, would change the sort metric without adding it to the selection.
\<close>

theorem C1_selection_counterexample:
  "\<not> checkbox_disabled ''timeSpent''
        \<lparr>selectedDimensions = [''timeSpent'', ''revenue''], activeSortDimension = ''timeSpent''\<rparr>
   \<and> sidebar_step
        \<lparr>selectedDimensions = [''timeSpent'', ''revenue''], activeSortDimension = ''timeSpent''\<rparr>
        (CheckedChange ''timeSpent'' CheckedFalse)
      = \<lparr>selectedDimensions = [''timeSpent'', ''revenue''], activeSortDimension = ''timeSpent''\<rparr>
   \<and> sidebar_step initial_sidebar (SortClick ''revenue'') = initial_sidebar
   \<and> ''revenue'' \<notin> set (selectedDimensions (sortOnClick ''revenue'' initial_sidebar))"
  by (simp add: checkbox_disabled_def onCheckedChange_def sort_disabled_def sortOnClick_def
        initial_sidebar_def)

text \<open>
  C1, amended. In every state \<open>st\<close> reachable from the initial one by popover events:
  the active sort metric belongs to the selected metrics; unchecking a metric removes it
  from the selection exactly when it is not the active sort metric, and otherwise changes
  nothing; a Sort click changes the sort metric only to a metric that is already
  selected, and never changes the selection.
\<close>

theorem C1_selection_invariant:
  "sort_in_selection (sidebar_run evs)
   \<and> sidebar_step (sidebar_run evs) (CheckedChange m CheckedFalse) =
       (if m = activeSortDimension (sidebar_run evs) then sidebar_run evs
        else (sidebar_run evs)\<lparr>selectedDimensions :=
               filter (\<lambda>d. d \<noteq> m) (selectedDimensions (sidebar_run evs))\<rparr>)
   \<and> sidebar_step (sidebar_run evs) (SortClick m) =
       (if m \<in> set (selectedDimensions (sidebar_run evs))
        then (sidebar_run evs)\<lparr>activeSortDimension := m\<rparr> else sidebar_run evs)
   \<and> selectedDimensions (sidebar_step (sidebar_run evs) (SortClick m)) =
       selectedDimensions (sidebar_run evs)"
proof -
  let ?st = "sidebar_run evs"
  have inv: "sort_in_selection ?st"
    by (rule sort_in_selection_run)
  have uncheck: "sidebar_step ?st (CheckedChange m CheckedFalse) =
       (if m = activeSortDimension ?st then ?st
        else ?st\<lparr>selectedDimensions := filter (\<lambda>d. d \<noteq> m) (selectedDimensions ?st)\<rparr>)"
    by (simp add: checkbox_disabled_def onCheckedChange_def)
  have sort: "sidebar_step ?st (SortClick m) =
       (if m \<in> set (selectedDimensions ?st) then ?st\<lparr>activeSortDimension := m\<rparr> else ?st)"
    by (simp add: sort_disabled_def sortOnClick_def)
  have frame: "selectedDimensions (sidebar_step ?st (SortClick m)) = selectedDimensions ?st"
    by (simp add: sort_disabled_def sortOnClick_def)
  from inv uncheck sort frame show ?thesis by blast
qed

theorem C1_selection_invariant_witness:
  "sort_in_selection (sidebar_run [CheckedChange ''revenue'' CheckedTrue, SortClick ''revenue''])
   \<and> activeSortDimension
        (sidebar_run [CheckedChange ''revenue'' CheckedTrue, SortClick ''revenue'']) = ''revenue''
   \<and> selectedDimensions
        (sidebar_step (sidebar_run [CheckedChange ''revenue'' CheckedTrue, SortClick ''revenue''])
           (CheckedChange ''timeSpent'' CheckedFalse)) = [''revenue'']"
  using C1_selection_invariant
    [of "[CheckedChange ''revenue'' CheckedTrue, SortClick ''revenue'']" "''timeSpent''"]
  by (simp add: sidebar_run_def initial_sidebar_def checkbox_disabled_def onCheckedChange_def
        sort_disabled_def sortOnClick_def sort_in_selection_def)


section \<open>Properties of the ranking engine\<close>

lemma mset_js_insert: "mset (js_insert cmp x ys) = add_mset x (mset ys)"
  by (induction ys) simp_all

lemma mset_js_sort: "mset (js_sort cmp xs) = mset xs"
  unfolding js_sort_def by (induction xs) (simp_all add: mset_js_insert)

lemma js_insert_key:
  "js_insert (\<lambda>a b. key b - key a) x ys = insort_key (\<lambda>u. - key u) x ys"
  for key :: "'a \<Rightarrow> int"
  by (induction ys) simp_all

lemma js_sort_key:
  "js_sort (\<lambda>a b. key b - key a) xs = sort_key (\<lambda>u. - key u) xs"
  for key :: "'a \<Rightarrow> int"
  unfolding js_sort_def sort_key_def by (induction xs) (simp_all add: js_insert_key)

lemma js_sort_descending:
  "sorted_wrt (\<lambda>a b. key b \<le> key a) (js_sort (\<lambda>a b. key b - key a) xs)"
  for key :: "'a \<Rightarrow> int"
proof -
  have "sorted (map (\<lambda>u. - key u) (sort_key (\<lambda>u. - key u) xs))"
    by (rule sorted_sort_key)
  then show ?thesis
    by (simp add: js_sort_key sorted_map)
qed

lemma js_sort_stable:
  "filter (\<lambda>u. key u = v) (js_sort (\<lambda>a b. key b - key a) xs) = filter (\<lambda>u. key u = v) xs"
  for key :: "'a \<Rightarrow> int"
proof -
  have "filter (\<lambda>u. - key u = - v) (sort_key (\<lambda>u. - key u) xs) = filter (\<lambda>u. - key u = - v) xs"
    by (rule sort_key_stable)
  then show ?thesis
    by (simp add: js_sort_key)
qed

lemma metric_cmp_key: "metric_cmp k = (\<lambda>a b. sort_value k b - sort_value k a)"
  by (simp add: metric_cmp_def sort_value_def fun_eq_iff)

lemma map_rank_zip:
  "map rank (map with_rank (zip xs [i..<i + length xs])) = map Some [Suc i..<Suc i + length xs]"
proof (induction xs arbitrary: i)
  case Nil
  show ?case by simp
next
  case (Cons x xs)
  have "[i..<i + length (x # xs)] = i # [Suc i..<Suc i + length xs]"
    by (simp add: upt_rec)
  moreover have "[Suc i..<Suc i + length (x # xs)] = Suc i # [Suc (Suc i)..<Suc (Suc i) + length xs]"
    by (simp add: upt_rec)
  ultimately show ?case
    using Cons.IH [of "Suc i"] by (simp add: with_rank_def)
qed

lemma map_unranked_zip:
  "length ns = length xs \<Longrightarrow> map unranked (map with_rank (zip xs ns)) = map unranked xs"
  by (induction xs ns rule: list_induct2') (simp_all add: unranked_def with_rank_def)

lemma ranked_rank:
  "map rank (rankedUsers lc users q k) =
     map Some [1..<Suc (length (filteredAndSortedUsers lc users q k))]"
  using map_rank_zip [of "filteredAndSortedUsers lc users q k" 0]
  by (simp add: rankedUsers_def Let_def)

lemma ranked_unranked:
  "map unranked (rankedUsers lc users q k) = map unranked (filteredAndSortedUsers lc users q k)"
  using map_unranked_zip [of "[0..<length (filteredAndSortedUsers lc users q k)]"
      "filteredAndSortedUsers lc users q k"]
  by (simp add: rankedUsers_def Let_def del: map_map)

lemma example_ranked:
  "map id' (rankedUsers ascii_toLowerCase example_users [] ''m'') = [3, 1, 2]
   \<and> map rank (rankedUsers ascii_toLowerCase example_users [] ''m'') = [Some 1, Some 2, Some 3]"
  by (simp add: rankedUsers_def filteredAndSortedUsers_def js_sort_def example_users_def
        example_user_def user_matches_def metric_cmp_def or_zero_def with_rank_def
        ascii_toLowerCase_def Let_def upt_rec)

text \<open>
  C9. The list the panel shows is in descending order of \<open>metrics[k] || 0\<close> (a missing
  value counts as 0); users with the same value keep the order they have in the filtered
  input (the sort is stable); the ranks are 1, 2, ..., n along the sorted list and
  nothing else of a user changes. For the users with ids 1, 2, 3 and values 5, 5, 9 of
  metric \<open>m\<close>, the ranked list is 3, 1, 2 with ranks 1, 2, 3.
\<close>

theorem C9_ranking_sort:
  "sorted_wrt (\<lambda>a b. sort_value k b \<le> sort_value k a) (filteredAndSortedUsers lc users q k)
   \<and> filter (\<lambda>u. sort_value k u = v) (filteredAndSortedUsers lc users q k)
       = filter (\<lambda>u. sort_value k u = v) (filter (user_matches lc q) users)
   \<and> sort_value k u = (case metrics u k of None \<Rightarrow> 0 | Some n \<Rightarrow> n)
   \<and> map rank (rankedUsers lc users q k)
       = map Some [1..<Suc (length (filteredAndSortedUsers lc users q k))]
   \<and> map unranked (rankedUsers lc users q k) = map unranked (filteredAndSortedUsers lc users q k)
   \<and> map id' (rankedUsers ascii_toLowerCase example_users [] ''m'') = [3, 1, 2]
   \<and> map rank (rankedUsers ascii_toLowerCase example_users [] ''m'') = [Some 1, Some 2, Some 3]"
proof -
  have "sorted_wrt (\<lambda>a b. sort_value k b \<le> sort_value k a) (filteredAndSortedUsers lc users q k)"
    unfolding filteredAndSortedUsers_def metric_cmp_key by (rule js_sort_descending)
  moreover have "filter (\<lambda>u. sort_value k u = v) (filteredAndSortedUsers lc users q k)
       = filter (\<lambda>u. sort_value k u = v) (filter (user_matches lc q) users)"
    unfolding filteredAndSortedUsers_def metric_cmp_key by (rule js_sort_stable)
  moreover have "sort_value k u = (case metrics u k of None \<Rightarrow> 0 | Some n \<Rightarrow> n)"
    by (simp add: sort_value_def or_zero_def)
  ultimately show ?thesis
    using ranked_rank ranked_unranked example_ranked by blast
qed

text \<open>
  C10. For every user list, query and sort metric, the ranked list is a permutation of
  the users that pass the filter, compared on every field but the rank (id, username,
  name, avatarUrl, metrics): nobody is added, lost or duplicated.
\<close>

theorem C10_ranked_permutation:
  "mset (map unranked (rankedUsers lc users q k))
     = mset (map unranked (filter (user_matches lc q) users))
   \<and> length (rankedUsers lc users q k) = length (filter (user_matches lc q) users)"
proof -
  have "mset (filteredAndSortedUsers lc users q k) = mset (filter (user_matches lc q) users)"
    by (simp add: filteredAndSortedUsers_def mset_js_sort)
  then have m: "mset (map unranked (filteredAndSortedUsers lc users q k))
      = mset (map unranked (filter (user_matches lc q) users))"
    by (metis mset_map)
  have "length (rankedUsers lc users q k) = length (map unranked (rankedUsers lc users q k))"
    by simp
  also have "\<dots> = length (filteredAndSortedUsers lc users q k)"
    by (simp add: ranked_unranked)
  also have "\<dots> = length (filter (user_matches lc q) users)"
    unfolding filteredAndSortedUsers_def by (rule mset_eq_length) (rule mset_js_sort)
  finally show ?thesis using m by (simp add: ranked_unranked)
qed

section \<open>Properties of the heuristic classifier\<close>

text \<open>
  C5. For every transaction whose metadata carries a log-message list, the heuristic
  classifier's description is the label of the first of the triggers Swap, Transfer,
  Deposit, Withdraw, Stake, Create, Close (in this order) that occurs in the log lines
  joined by spaces. In particular a text that contains Swap gets the swap label whatever
  else it contains (so also with Transfer in it), a text that contains any trigger never
  gets the generic label, and a text without any trigger gets \<open>Transaction\<close>.
\<close>

theorem C5_keyword_priority:
  assumes "meta tx = Some m" and "logMessages m = Some msgs"
  shows "parseTransactionType_heuristic matchAll tx =
           trigger_label (matchAll (join_space msgs))
             (find (js_includes (join_space msgs)) keyword_triggers)
   \<and> keyword_triggers =
       [''Swap'', ''Transfer'', ''Deposit'', ''Withdraw'', ''Stake'', ''Create'', ''Close'']
   \<and> (if js_includes (join_space msgs) ''Swap''
       then parseTransactionType_heuristic matchAll tx = swap_label (matchAll (join_space msgs))
       else if list_ex (js_includes (join_space msgs)) keyword_triggers
       then parseTransactionType_heuristic matchAll tx \<noteq> ''Transaction''
       else parseTransactionType_heuristic matchAll tx = ''Transaction'')"
  using assms
  by (simp add: parseTransactionType_heuristic_def Let_def trigger_label_def
        keyword_triggers_def swap_label_def transfer_label_def split: list.splits)

theorem C5_keyword_priority_witness:
  "parseTransactionType_heuristic (\<lambda>s. [])
     (logs_tx [''Program log: Transfer 5 SOL'', ''Instruction: Swap'']) = ''Token Swap''
   \<and> parseTransactionType_heuristic (\<lambda>s. [(''5'', ''SOL'')])
     (logs_tx [''Program log: Transfer 5 SOL'']) = ''Transferred 5 SOL''
   \<and> parseTransactionType_heuristic (\<lambda>s. []) (logs_tx [''Program log: hello'']) = ''Transaction''"
  using C5_keyword_priority [of "logs_tx [''Program log: Transfer 5 SOL'', ''Instruction: Swap'']"
      "\<lparr>meta_err = JNull, logMessages = Some [''Program log: Transfer 5 SOL'', ''Instruction: Swap''],
        preBalances = None, postBalances = None, innerInstructions = None\<rparr>"
      "[''Program log: Transfer 5 SOL'', ''Instruction: Swap'']" "\<lambda>s. []"]
  by (simp add: logs_tx_def parseTransactionType_heuristic_def Let_def)

section \<open>Properties of the wallet fetch\<close>

lemma map_non_null_append:
  "map_non_null f (xs @ ys) = map_non_null f xs @ map_non_null f ys"
  by (simp add: map_non_null_def)

lemma map_non_null_filter:
  "map_non_null f xs = map (\<lambda>x. the (f x)) (filter (\<lambda>x. f x \<noteq> None) xs)"
  by (induction xs) (simp_all add: map_non_null_def)

lemma take_drop_batch: "take n (drop i xs) @ drop (i + n) xs = drop i xs"
  by (metis add.commute append_take_drop_id drop_drop)

lemma batch_loop_fst:
  "fst (batch_loop r sigs i acc eff) = acc @ map_non_null (fetchTransaction r) (drop i sigs)"
proof (induction r sigs i acc eff rule: batch_loop.induct)
  case (1 r allSignatures i allTransactions eff)
  show ?case
  proof (cases "i < length allSignatures")
    case True
    have "map_non_null (fetchTransaction r) (drop i allSignatures) =
            map_non_null (fetchTransaction r) (take batchSize (drop i allSignatures))
            @ map_non_null (fetchTransaction r) (drop (i + batchSize) allSignatures)"
      using take_drop_batch [of batchSize i allSignatures]
      by (metis map_non_null_append)
    with True "1.IH" show ?thesis
      by (subst batch_loop.simps) simp
  next
    case False
    then show ?thesis
      by (subst batch_loop.simps) (simp add: map_non_null_def)
  qed
qed

lemma fetchTransaction_resolved: "(fetchTransaction r s \<noteq> None) = resolved r s"
  by (simp add: fetchTransaction_def resolved_def split: sum.splits option.splits)

lemma fetched_blockTime:
  "map blockTime (map_non_null (fetchTransaction r) sigs) =
     map (\<lambda>s. or_zero (sig_blockTime s)) (filter (resolved r) sigs)"
  by (induction sigs)
     (auto simp: map_non_null_filter fetchTransaction_resolved fetchTransaction_def resolved_def
        split: sum.splits option.splits)

lemma fetched_signature:
  "map signature (map_non_null (fetchTransaction r) sigs) =
     map sig_signature (filter (resolved r) sigs)"
  by (induction sigs)
     (auto simp: map_non_null_filter fetchTransaction_resolved fetchTransaction_def resolved_def
        split: sum.splits option.splits)

lemma fetch_success:
  assumes "newPublicKey r a = Inr pk" and "getAccountInfo r pk = Inr ai"
    and "getConfirmedSignaturesForAddress2 r pk 1000 = Inr sigs"
  shows "trades (fst (fetchWalletData r a st)) =
           js_sort blockTime_cmp (map_non_null (fetchTransaction r) sigs)"
    and "error (fst (fetchWalletData r a st)) = []"
    and "loading (fst (fetchWalletData r a st)) = False"
    and "balance (fst (fetchWalletData r a st)) =
           Some (case ai of Some lamports \<Rightarrow> per_sol (Fin (of_nat lamports)) | None \<Rightarrow> Fin 0)"
  using assms
  by (simp_all add: fetchWalletData_def try_block_def Let_def batch_loop_fst js_sort_def
        map_non_null_def)

lemma blockTime_cmp_key: "blockTime_cmp = (\<lambda>a b. blockTime b - blockTime a)"
  by (simp add: blockTime_cmp_def fun_eq_iff)

text \<open>
  C4. For every run of the batched fetch in which the address decodes and the balance
  and signature requests succeed, the transaction list shown is the list of fetched
  records (batch after batch, in array order) sorted by \<open>blockTime\<close>: it is in descending
  order of \<open>blockTime\<close>, records with the same \<open>blockTime\<close> keep the order in which they
  were fetched, and the \<open>blockTime\<close> of a record is the signature's block time, 0 when
  the signature has none.
\<close>

theorem C4_newest_first:
  assumes "newPublicKey r a = Inr pk" and "getAccountInfo r pk = Inr ai"
    and "getConfirmedSignaturesForAddress2 r pk 1000 = Inr sigs"
  shows "trades (fst (fetchWalletData r a st)) =
           js_sort blockTime_cmp (map_non_null (fetchTransaction r) sigs)
    \<and> sorted_wrt (\<lambda>x y. blockTime y \<le> blockTime x) (trades (fst (fetchWalletData r a st)))
    \<and> filter (\<lambda>t. blockTime t = v) (trades (fst (fetchWalletData r a st)))
        = filter (\<lambda>t. blockTime t = v) (map_non_null (fetchTransaction r) sigs)
    \<and> map blockTime (map_non_null (fetchTransaction r) sigs)
        = map (\<lambda>s. or_zero (sig_blockTime s)) (filter (resolved r) sigs)"
proof -
  have t: "trades (fst (fetchWalletData r a st)) =
           js_sort blockTime_cmp (map_non_null (fetchTransaction r) sigs)"
    using assms by (rule fetch_success)
  have "sorted_wrt (\<lambda>x y. blockTime y \<le> blockTime x)
          (js_sort blockTime_cmp (map_non_null (fetchTransaction r) sigs))"
    unfolding blockTime_cmp_key by (rule js_sort_descending)
  moreover have "filter (\<lambda>t. blockTime t = v)
          (js_sort blockTime_cmp (map_non_null (fetchTransaction r) sigs))
        = filter (\<lambda>t. blockTime t = v) (map_non_null (fetchTransaction r) sigs)"
    unfolding blockTime_cmp_key by (rule js_sort_stable)
  ultimately show ?thesis
    using t fetched_blockTime [of r sigs] by simp
qed

text \<open>
  C8. For every such run, whatever the transaction requests do (throw, resolve to null
  or to a body): the list has at most as many records as there are signatures, exactly
  as many as there are signatures whose body resolved, one record for each of those
  signatures, and no error is set: a failed body is dropped and aborts nothing.
\<close>

theorem C8_list_length:
  assumes "newPublicKey r a = Inr pk" and "getAccountInfo r pk = Inr ai"
    and "getConfirmedSignaturesForAddress2 r pk 1000 = Inr sigs"
  shows "length (trades (fst (fetchWalletData r a st))) \<le> length sigs
    \<and> length (trades (fst (fetchWalletData r a st))) = length (filter (resolved r) sigs)
    \<and> mset (map signature (trades (fst (fetchWalletData r a st))))
        = mset (map sig_signature (filter (resolved r) sigs))
    \<and> error (fst (fetchWalletData r a st)) = []"
proof -
  let ?all = "map_non_null (fetchTransaction r) sigs"
  have t: "trades (fst (fetchWalletData r a st)) = js_sort blockTime_cmp ?all"
    using assms by (rule fetch_success)
  have m: "mset (trades (fst (fetchWalletData r a st))) = mset ?all"
    by (simp add: t mset_js_sort)
  have "(\<lambda>x. fetchTransaction r x \<noteq> None) = resolved r"
    by (rule ext) (rule fetchTransaction_resolved)
  then have len_all: "length ?all = length (filter (resolved r) sigs)"
    unfolding map_non_null_filter by (simp del: not_None_eq)
  have len: "length (trades (fst (fetchWalletData r a st))) = length (filter (resolved r) sigs)"
    using mset_eq_length [OF m] len_all by simp
  have "mset (map signature (trades (fst (fetchWalletData r a st)))) = mset (map signature ?all)"
    using m by (metis mset_map)
  then have sigs: "mset (map signature (trades (fst (fetchWalletData r a st))))
        = mset (map sig_signature (filter (resolved r) sigs))"
    by (simp add: fetched_signature)
  have "error (fst (fetchWalletData r a st)) = []"
    using assms by (rule fetch_success)
  with len sigs show ?thesis
    by (simp add: length_filter_le)
qed

text \<open>
  C6. When the address does not decode, or the balance request throws, or the signature
  request throws, the state after the fetch has no balance, an empty transaction list,
  the thrown error's message as its error text, and is no longer loading, whatever the
  state was before.
\<close>

theorem C6_abort_clears:
  assumes "newPublicKey r a = Inl e
     \<or> (\<exists>pk. newPublicKey r a = Inr pk
            \<and> (getAccountInfo r pk = Inl e
               \<or> (\<exists>ai. getAccountInfo r pk = Inr ai
                      \<and> getConfirmedSignaturesForAddress2 r pk 1000 = Inl e)))"
  shows "fst (fetchWalletData r a st) =
           \<lparr>balance = None, trades = [], loading = False, error = message e\<rparr>"
  using assms
  by (auto simp: fetchWalletData_def try_block_def Let_def)

text \<open>
  C7. When the address does not decode, the fetch issues no request at all (no balance,
  signature or transaction request, and no pause), and the decode error's message is the
  error shown.
\<close>

theorem C7_invalid_address:
  assumes "newPublicKey r a = Inl e"
  shows "snd (fetchWalletData r a st) = []
    \<and> error (fst (fetchWalletData r a st)) = message e
    \<and> trades (fst (fetchWalletData r a st)) = []
    \<and> balance (fst (fetchWalletData r a st)) = None"
  using assms
  by (simp add: fetchWalletData_def try_block_def Let_def)

text \<open>
  C2. The two variants of the record-building callback do not compute the same success
  flag: there is a signature and a transaction body for which the batched variant
  (\<open>!sig.err\<close>) says successful and the simple variant (\<open>tx.meta?.err === null\<close>) says
  failed. A body whose \<open>meta\<close> is null, under a signature without error, is one.
\<close>

theorem C2_success_flags_diverge:
  "(\<exists>(r :: string rpc) s.
      map_option successful (fetchTransaction r s)
        \<noteq> map_option successful (fetchTransaction_simple r s))
   \<and> map_option successful (fetchTransaction demo_rpc (hd demo_signatures)) = Some True
   \<and> map_option successful (fetchTransaction_simple demo_rpc (hd demo_signatures)) = Some False"
proof -
  have a: "map_option successful (fetchTransaction demo_rpc (hd demo_signatures)) = Some True"
    by (simp add: fetchTransaction_def demo_rpc_def demo_signatures_def demo_tx_def)
  have b: "map_option successful (fetchTransaction_simple demo_rpc (hd demo_signatures)) = Some False"
    by (simp add: fetchTransaction_simple_def demo_rpc_def demo_signatures_def demo_tx_def)
  have "map_option successful (fetchTransaction demo_rpc (hd demo_signatures))
        \<noteq> map_option successful (fetchTransaction_simple demo_rpc (hd demo_signatures))"
    unfolding a b by simp
  then have "\<exists>(r :: string rpc) s.
      map_option successful (fetchTransaction r s)
        \<noteq> map_option successful (fetchTransaction_simple r s)"
    by blast
  with a b show ?thesis by simp
qed


lemma demo_decodes: "newPublicKey demo_rpc demo_address = Inr demo_address"
  by (simp add: demo_rpc_def demo_address_def)

lemma demo_fetched:
  "map_non_null (fetchTransaction demo_rpc) demo_signatures =
     map (\<lambda>(s, t). \<lparr>signature = s, timestamp = (if t = 0 then ''Unknown time'' else ''date''),
            successful = (s \<noteq> ''s3''), type' = parseTransactionType demo_tx, blockTime = t\<rparr>)
       [(''s1'', 100), (''s3'', 200), (''s4'', 0), (''s5'', 100)]"
  by (simp add: map_non_null_def fetchTransaction_def demo_rpc_def demo_signatures_def
        timestamp_of_def or_zero_def)

theorem C4_newest_first_witness:
  "map signature (trades (fst (fetchWalletData demo_rpc demo_address initial_wallet)))
     = [''s3'', ''s1'', ''s5'', ''s4'']
   \<and> map blockTime (trades (fst (fetchWalletData demo_rpc demo_address initial_wallet)))
     = [200, 100, 100, 0]"
  using C4_newest_first [of demo_rpc demo_address demo_address "Some 1500000000"
      demo_signatures initial_wallet 100]
  by (simp add: demo_decodes demo_fetched js_sort_def blockTime_cmp_def)
     (simp add: demo_rpc_def)

theorem C8_list_length_witness:
  "length (trades (fst (fetchWalletData demo_rpc demo_address initial_wallet))) = 4
   \<and> length demo_signatures = 5
   \<and> filter (resolved demo_rpc) demo_signatures
       = [demo_signatures ! 0, demo_signatures ! 2, demo_signatures ! 3, demo_signatures ! 4]
   \<and> error (fst (fetchWalletData demo_rpc demo_address initial_wallet)) = []"
  using C8_list_length [of demo_rpc demo_address demo_address "Some 1500000000"
      demo_signatures initial_wallet]
  by (simp add: demo_decodes)
     (simp add: demo_rpc_def demo_signatures_def resolved_def)

theorem C6_abort_clears_witness:
  "fst (fetchWalletData demo_rpc ''abc'' (initial_wallet\<lparr>balance := Some (Fin 1)\<rparr>))
     = \<lparr>balance = None, trades = [], loading = False, error = ''Invalid public key input''\<rparr>
   \<and> fst (fetchWalletData (demo_rpc\<lparr>getAccountInfo := \<lambda>k. Inl (Error ''503'')\<rparr>) demo_address
          (initial_wallet\<lparr>balance := Some (Fin 1)\<rparr>))
     = \<lparr>balance = None, trades = [], loading = False, error = ''503''\<rparr>
   \<and> fst (fetchWalletData
            (demo_rpc\<lparr>getConfirmedSignaturesForAddress2 := \<lambda>k n. Inl (Error ''timeout'')\<rparr>)
            demo_address (initial_wallet\<lparr>balance := Some (Fin 1)\<rparr>))
     = \<lparr>balance = None, trades = [], loading = False, error = ''timeout''\<rparr>"
  using C6_abort_clears [of demo_rpc "''abc''" "Error ''Invalid public key input''"
      "initial_wallet\<lparr>balance := Some (Fin 1)\<rparr>"]
    C6_abort_clears [of "demo_rpc\<lparr>getAccountInfo := \<lambda>k. Inl (Error ''503'')\<rparr>" demo_address
      "Error ''503''" "initial_wallet\<lparr>balance := Some (Fin 1)\<rparr>"]
    C6_abort_clears [of
      "demo_rpc\<lparr>getConfirmedSignaturesForAddress2 := \<lambda>k n. Inl (Error ''timeout'')\<rparr>"
      demo_address "Error ''timeout''" "initial_wallet\<lparr>balance := Some (Fin 1)\<rparr>"]
  by (simp add: demo_rpc_def demo_address_def)

theorem C7_invalid_address_witness:
  "newPublicKey demo_rpc ''abc'' = Inl (Error ''Invalid public key input'')
   \<and> snd (fetchWalletData demo_rpc ''abc'' initial_wallet) = []
   \<and> error (fst (fetchWalletData demo_rpc ''abc'' initial_wallet)) = ''Invalid public key input''"
  using C7_invalid_address [of demo_rpc "''abc''" "Error ''Invalid public key input''" initial_wallet]
  by (simp add: demo_rpc_def)

section \<open>Properties of the double-precision arithmetic\<close>

text \<open>
  Rounding to a double moves a number by at most half a unit in the last place, keeps
  zero apart from everything else, and keeps the quotients by \<open>10\<^sup>9\<close> of distinct lamport
  counts below \<open>2\<^sup>2\<^sup>3 \<cdot> 10\<^sup>9\<close> distinct.
\<close>

lemma round_half_even_error: "\<bar>of_int (round_half_even x) - x\<bar> \<le> 1 / 2"
proof -
  have "of_int \<lfloor>x\<rfloor> \<le> x" "x < of_int \<lfloor>x\<rfloor> + 1"
    by linarith+
  then show ?thesis
    by (auto simp: round_half_even_def Let_def)
qed


lemma pow2_bitlen:
  assumes "0 < (p::int)"
  shows "(2::rat) powi (bitlen p - 1) \<le> of_int p" and "of_int p < (2::rat) powi (bitlen p)"
proof -
  from bitlen_bounds [OF assms]
  have a: "2 ^ nat (bitlen p - 1) \<le> p" and b: "p < 2 ^ nat (bitlen p)"
    by auto
  have ge1: "1 \<le> bitlen p"
    using assms by (simp add: bitlen_alt_def)
  have "(2::rat) powi (bitlen p - 1) = of_int (2 ^ nat (bitlen p - 1))"
    using ge1 by (simp add: power_int_def)
  also have "\<dots> \<le> of_int p"
    using a by (simp only: of_int_le_iff)
  finally show "(2::rat) powi (bitlen p - 1) \<le> of_int p" .
  have "(of_int p :: rat) < of_int (2 ^ nat (bitlen p))"
    using b by (simp only: of_int_less_iff)
  also have "\<dots> = (2::rat) powi (bitlen p)"
    using ge1 by (simp add: power_int_def)
  finally show "of_int p < (2::rat) powi (bitlen p)" .
qed

lemma binade_bounds:
  assumes "q \<noteq> 0"
  shows "2 powi (binade q) \<le> \<bar>q\<bar>" and "\<bar>q\<bar> < 2 powi (binade q + 1)"
proof -
  obtain p d where pd: "quotient_of \<bar>q\<bar> = (p, d)"
    by (cases "quotient_of \<bar>q\<bar>")
  have d: "0 < d"
    using pd by (rule quotient_of_denom_pos)
  have q: "\<bar>q\<bar> = of_int p / of_int d"
    using pd by (rule quotient_of_div)
  have "0 < \<bar>q\<bar>"
    using assms by simp
  with q d have p: "0 < p"
    by (simp add: zero_less_divide_iff)
  define e0 where "e0 = bitlen p - bitlen d"
  have lo: "(2::rat) powi (e0 - 1) < \<bar>q\<bar>"
  proof -
    have "(2::rat) powi (e0 - 1) = 2 powi (bitlen p - 1) / 2 powi (bitlen d)"
      by (simp add: e0_def power_int_diff [symmetric] algebra_simps)
    also have "\<dots> \<le> of_int p / 2 powi (bitlen d)"
      using pow2_bitlen(1) [OF p] by (simp add: divide_right_mono)
    also have "\<dots> < of_int p / of_int d"
      using pow2_bitlen(2) [OF d] p d by (simp add: divide_strict_left_mono)
    finally show ?thesis
      by (simp add: q)
  qed
  have hi: "\<bar>q\<bar> < (2::rat) powi (e0 + 1)"
  proof -
    have "\<bar>q\<bar> = of_int p / of_int d"
      by (rule q)
    also have "\<dots> < 2 powi (bitlen p) / of_int d"
      using pow2_bitlen(2) [OF p] d by (simp add: divide_strict_right_mono)
    also have "\<dots> \<le> 2 powi (bitlen p) / 2 powi (bitlen d - 1)"
      using pow2_bitlen(1) [OF d] d by (simp add: divide_left_mono)
    also have "\<dots> = (2::rat) powi (e0 + 1)"
      by (simp add: e0_def power_int_diff [symmetric] algebra_simps)
    finally show ?thesis .
  qed
  have b: "binade q = (if 2 powi e0 \<le> \<bar>q\<bar> then e0 else e0 - 1)"
    by (simp add: binade_def pd e0_def Let_def)
  show "2 powi (binade q) \<le> \<bar>q\<bar>"
    using lo by (simp add: b)
  show "\<bar>q\<bar> < 2 powi (binade q + 1)"
    using hi by (simp add: b)
qed


lemma round_double_error:
  assumes "q \<noteq> 0"
  shows "\<bar>round_double q - q\<bar> \<le> 2 powi (binade q - 53)"
proof -
  define u :: rat where "u = 2 powi (binade q - 52)"
  have u: "0 < u"
    by (simp add: u_def)
  have half: "u / 2 = 2 powi (binade q - 53)"
  proof -
    have "(2::rat) powi (binade q - 53) = 2 powi ((binade q - 52) - 1)"
      by simp
    also have "\<dots> = 2 powi (binade q - 52) / 2 powi 1"
      by (rule power_int_diff) simp
    finally show ?thesis
      by (simp add: u_def)
  qed
  have "round_double q - q = (of_int (round_half_even (q / u)) - q / u) * u"
    using assms u by (simp add: round_double_def u_def algebra_simps)
  then have "\<bar>round_double q - q\<bar> = \<bar>of_int (round_half_even (q / u)) - q / u\<bar> * u"
    using u by (simp add: abs_mult)
  also have "\<dots> \<le> (1 / 2) * u"
    using round_half_even_error [of "q / u"] u by (intro mult_right_mono) simp_all
  finally show ?thesis
    using half by simp
qed

lemma round_double_zero_iff: "round_double q = 0 \<longleftrightarrow> q = 0"
proof
  assume z: "round_double q = 0"
  show "q = 0"
  proof (rule ccontr)
    assume nz: "q \<noteq> 0"
    have "\<bar>q\<bar> \<le> 2 powi (binade q - 53)"
      using round_double_error [OF nz] z by simp
    moreover have "(2::rat) powi (binade q - 53) < 2 powi (binade q)"
      by (rule power_int_strict_increasing) simp_all
    moreover have "2 powi (binade q) \<le> \<bar>q\<bar>"
      using nz by (rule binade_bounds)
    ultimately show False
      by simp
  qed
next
  assume "q = 0"
  then show "round_double q = 0"
    by (simp add: round_double_def)
qed

lemma binade_less:
  assumes "q \<noteq> 0" and "\<bar>q\<bar> < 2 powi n"
  shows "binade q < n"
proof (rule ccontr)
  assume "\<not> binade q < n"
  then have "(2::rat) powi n \<le> 2 powi (binade q)"
    by (intro power_int_increasing) simp_all
  also have "\<dots> \<le> \<bar>q\<bar>"
    using assms(1) by (rule binade_bounds)
  finally show False
    using assms(2) by simp
qed

lemma round_double_error_below:
  assumes "\<bar>q\<bar> < 2 powi n"
  shows "\<bar>round_double q - q\<bar> \<le> 2 powi (n - 54)"
proof (cases "q = 0")
  case True
  then show ?thesis
    by (simp add: round_double_def)
next
  case False
  have "binade q - 53 \<le> n - 54"
    using binade_less [OF False assms] by simp
  then have "(2::rat) powi (binade q - 53) \<le> 2 powi (n - 54)"
    by (intro power_int_increasing) simp_all
  with round_double_error [OF False] show ?thesis
    by simp
qed

lemma round_double_quotient_inj:
  fixes a b :: nat
  assumes "a < b" and "b < 2 ^ 23 * 10 ^ 9"
  shows "round_double (of_nat a / 1000000000) < round_double (of_nat b / 1000000000)"
proof -
  let ?x = "of_nat a / 1000000000 :: rat" and ?y = "of_nat b / 1000000000 :: rat"
  have pw: "(2::rat) powi 23 = 8388608" "(2::rat) powi (23 - 54) = 1 / 2147483648"
    by (simp_all add: power_int_def power_one_over)
  have "(of_nat b :: rat) < of_nat (2 ^ 23 * 10 ^ 9)"
    using assms(2) by (simp only: of_nat_less_iff)
  then have yb: "\<bar>?y\<bar> < 2 powi 23"
    by (simp add: pw)
  have "(of_nat a :: rat) < of_nat b"
    using assms(1) by (simp only: of_nat_less_iff)
  then have xy: "?x < ?y"
    by simp
  then have xb: "\<bar>?x\<bar> < 2 powi 23"
    using yb by simp
  have "Suc a \<le> b"
    using assms(1) by simp
  then have "(of_nat (Suc a) :: rat) \<le> of_nat b"
    by (simp only: of_nat_le_iff)
  then have "(of_nat a :: rat) + 1 \<le> of_nat b"
    by simp
  then have gap: "?x + 1 / 1000000000 \<le> ?y"
    by (simp add: field_simps)
  have ex: "\<bar>round_double ?x - ?x\<bar> \<le> 1 / 2147483648"
    using round_double_error_below [OF xb] by (simp add: pw)
  have ey: "\<bar>round_double ?y - ?y\<bar> \<le> 1 / 2147483648"
    using round_double_error_below [OF yb] by (simp add: pw)
  from gap ex ey show ?thesis
    by linarith
qed


section \<open>Properties of the structural classifier\<close>

lemma sol_change_present:
  assumes "i < length pre" and "i < length post"
  shows "sol_change pre post i =
           Fin (round_double (round_double (of_nat (post ! i) / 1000000000)
                              - round_double (of_nat (pre ! i) / 1000000000)))"
  using assms by (simp add: sol_change_def number_at_def LAMPORTS_PER_SOL_def)

lemma sol_change_equal:
  assumes "i < length pre" and "i < length post" and "pre ! i = post ! i"
  shows "sol_change pre post i = Fin 0"
  using assms by (simp add: sol_change_present round_double_def)

lemma sol_change_close:
  assumes "i < length pre" and "i < length post" and "pre ! i \<noteq> post ! i"
    and "pre ! i < 2 ^ 23 * 10 ^ 9" and "post ! i < 2 ^ 23 * 10 ^ 9"
  shows "\<exists>c. sol_change pre post i = Fin c \<and> c \<noteq> 0
           \<and> \<bar>c - (of_nat (post ! i) - of_nat (pre ! i)) / 1000000000\<bar> \<le> 1 / 2 ^ 29"
proof -
  let ?x = "of_nat (pre ! i) / 1000000000 :: rat" and ?y = "of_nat (post ! i) / 1000000000 :: rat"
  let ?d = "round_double ?y - round_double ?x"
  have pw: "(2::rat) powi 23 = 8388608" "(2::rat) powi (23 - 54) = 1 / 2147483648"
      "(2::rat) powi 24 = 16777216" "(2::rat) powi (24 - 54) = 1 / 1073741824"
    by (simp_all add: power_int_def power_one_over)
  have bound: "\<bar>of_nat n / 1000000000 :: rat\<bar> < 2 powi 23" if "n < 2 ^ 23 * 10 ^ 9" for n :: nat
  proof -
    have "(of_nat n :: rat) < of_nat (2 ^ 23 * 10 ^ 9)"
      using that by (simp only: of_nat_less_iff)
    then show ?thesis
      by (simp add: pw)
  qed
  have ex: "\<bar>round_double ?x - ?x\<bar> \<le> 1 / 2147483648"
    using round_double_error_below [OF bound [OF assms(4)]] by (simp only: pw)
  have ey: "\<bar>round_double ?y - ?y\<bar> \<le> 1 / 2147483648"
    using round_double_error_below [OF bound [OF assms(5)]] by (simp only: pw)
  have xb: "\<bar>?x\<bar> < 8388608" and yb: "\<bar>?y\<bar> < 8388608"
    using bound [OF assms(4)] bound [OF assms(5)] by (simp_all only: pw)
  have "pre ! i < post ! i \<or> post ! i < pre ! i"
    using assms(3) by linarith
  then have nz: "?d \<noteq> 0"
  proof
    assume "pre ! i < post ! i"
    from round_double_quotient_inj [OF this assms(5)] show ?thesis by simp
  next
    assume "post ! i < pre ! i"
    from round_double_quotient_inj [OF this assms(4)] show ?thesis by simp
  qed
  have "\<bar>?d\<bar> < 16777216"
    using ex ey xb yb by linarith
  then have "\<bar>?d\<bar> < 2 powi 24"
    by (simp only: pw)
  from round_double_error_below [OF this]
  have ed: "\<bar>round_double ?d - ?d\<bar> \<le> 1 / 1073741824"
    by (simp only: pw)
  have "\<bar>round_double ?d - (?y - ?x)\<bar> \<le> 1 / 536870912"
    using ex ey ed by linarith
  then have c: "\<bar>round_double ?d - (?y - ?x)\<bar> \<le> 1 / 2 ^ 29"
    by simp
  have eq: "(of_nat (post ! i) - of_nat (pre ! i)) / 1000000000 = ?y - ?x"
    by (simp add: diff_divide_distrib)
  have close: "\<bar>round_double ?d - (of_nat (post ! i) - of_nat (pre ! i)) / 1000000000\<bar>
      \<le> 1 / 2 ^ 29"
    unfolding eq by (rule c)
  have nz': "round_double ?d \<noteq> 0"
    using nz by (simp add: round_double_zero_iff)
  have "sol_change pre post i = Fin (round_double ?d)"
    by (rule sol_change_present [OF assms(1,2)])
  with nz' close show ?thesis
    by blast
qed

lemma account_of_change:
  "balance_change_at pre post p \<noteq> None \<Longrightarrow> account (the (balance_change_at pre post p)) = fst p"
  by (simp add: balance_change_at_def split: if_splits)

lemma changes_in_account_order:
  "subseq (map account (map_non_null (balance_change_at pre post) (with_index accs))) accs"
proof -
  let ?P = "\<lambda>p. balance_change_at pre post p \<noteq> None"
  have "map account (map_non_null (balance_change_at pre post) (with_index accs))
          = map fst (filter ?P (with_index accs))"
    unfolding map_non_null_filter by (simp add: account_of_change del: not_None_eq)
  moreover have "subseq (map fst (filter ?P (with_index accs))) (map fst (with_index accs))"
    by (intro subseq_map subseq_filter_left)
  moreover have "map fst (with_index accs) = accs"
    by (simp add: with_index_def)
  ultimately show ?thesis
    by simp
qed

lemma classify_structural:
  assumes "meta tx = Some m" and "transaction_message tx = Some msg"
  shows "balanceChanges (parseTransactionType tx) =
     Some (map_non_null (balance_change_at (or_empty (preBalances m)) (or_empty (postBalances m)))
             (with_index (map pubkey (accountKeys msg))))"
  using assms by (simp add: parseTransactionType_def Let_def)

lemma classify_balances:
  "balanceChanges (parseTransactionType (balances_tx accs pre post)) =
     Some (map_non_null (balance_change_at pre post) (with_index accs))"
  by (simp add: classify_structural [of _ "the (meta (balances_tx accs pre post))"
        "the (transaction_message (balances_tx accs pre post))"] balances_tx_def or_empty_def comp_def)

lemma sol_change_examples:
  "sol_change [1000000000] [1500000000] 0 = Fin (1 / 2)"
  "sol_change [0] [150000] 0 = Fin (5534023222112865 / 36893488147419103232)"
  "sol_change [100000] [250000] 0 = Fin (2767011611056433 / 18446744073709551616)"
  "sol_change [9000000000000001] [9000000000000002] 0 = Fin 0"
  "sol_change [1000000000, 5, 7] [1500000000, 5, 6] 2
     = Fin (- 1208925819614629 / 1208925819614629174706176)"
  "sol_change [1000000000, 5, 7] [1500000000, 5, 6] 0 = Fin (1 / 2)"
  "sol_change [] [] 0 = NaN"
  by (simp_all add: sol_change_def number_at_def) code_simp+

lemma toFixed4_examples:
  "toFixed4 (sol_change [1000000000] [1500000000] 0) = ''0.5000''"
  "toFixed4 (sol_change [0] [150000] 0) = ''0.0001''"
  "toFixed4 (sol_change [100000] [250000] 0) = ''0.0002''"
  "toFixed4 (sol_change [1000000000, 5, 7] [1500000000, 5, 6] 2) = ''-0.0000''"
  "toFixed4 (sol_change [1000000000, 5, 7] [1500000000, 5, 6] 0) = ''0.5000''"
  "toFixed4 (sol_change [] [] 0) = ''NaN''"
  unfolding sol_change_examples by code_simp+

lemma nonzero_examples:
  "sol_change [1000000000] [1500000000] 0 \<noteq> Fin 0"
  "sol_change [0] [150000] 0 \<noteq> Fin 0"
  "sol_change [100000] [250000] 0 \<noteq> Fin 0"
  "sol_change [1000000000, 5, 7] [1500000000, 5, 6] 2 \<noteq> Fin 0"
  "sol_change [1000000000, 5, 7] [1500000000, 5, 6] 0 \<noteq> Fin 0"
  "sol_change [] [] 0 \<noteq> Fin 0"
  unfolding sol_change_examples by simp_all

lemma balance_change_examples:
  "balance_change_at [1000000000] [1500000000] (a, 0) = Some \<lparr>account = a, change = ''0.5000''\<rparr>"
  "balance_change_at [0] [150000] (a, 0) = Some \<lparr>account = a, change = ''0.0001''\<rparr>"
  "balance_change_at [100000] [250000] (a, 0) = Some \<lparr>account = a, change = ''0.0002''\<rparr>"
  "balance_change_at [9000000000000001] [9000000000000002] (a, 0) = None"
  "balance_change_at [] [] (a, 0) = Some \<lparr>account = a, change = ''NaN''\<rparr>"
  "balance_change_at [1000000000, 5, 7] [1500000000, 5, 6] (a, 0)
     = Some \<lparr>account = a, change = ''0.5000''\<rparr>"
  "balance_change_at [1000000000, 5, 7] [1500000000, 5, 6] (a, 2)
     = Some \<lparr>account = a, change = ''-0.0000''\<rparr>"
  by (simp_all add: balance_change_at_def toFixed4_examples nonzero_examples
        sol_change_examples(4))

lemma balance_change_example_equal:
  "balance_change_at [1000000000, 5, 7] [1500000000, 5, 6] (a, Suc 0) = None"
  using sol_change_equal [of "Suc 0" "[1000000000, 5, 7]" "[1500000000, 5, 6]"]
  by (simp add: balance_change_at_def)


lemma classified_examples:
  "balanceChanges (parseTransactionType (balances_tx [a] [1000000000] [1500000000]))
     = Some [\<lparr>account = a, change = ''0.5000''\<rparr>]"
  "balanceChanges (parseTransactionType (balances_tx [a] [0] [150000]))
     = Some [\<lparr>account = a, change = ''0.0001''\<rparr>]"
  "balanceChanges (parseTransactionType (balances_tx [a] [100000] [250000]))
     = Some [\<lparr>account = a, change = ''0.0002''\<rparr>]"
  "balanceChanges (parseTransactionType (balances_tx [a] [9000000000000001] [9000000000000002]))
     = Some []"
  "balanceChanges (parseTransactionType (balances_tx [a] [] [])) = Some [\<lparr>account = a, change = ''NaN''\<rparr>]"
  by (simp_all add: classify_balances map_non_null_def with_index_def balance_change_examples)

lemma classified_equal:
  "balanceChanges (parseTransactionType (balances_tx [a] [n] [n])) = Some []"
  using sol_change_equal [of 0 "[n]" "[n]"]
  by (simp add: classify_balances map_non_null_def with_index_def balance_change_at_def)

lemma balance_change_example_third:
  "balance_change_at [1000000000, 5, 7] [1500000000, 5, 6] (a, Suc (Suc 0))
     = Some \<lparr>account = a, change = ''-0.0000''\<rparr>"
  using balance_change_examples(7) [of a] unfolding numeral_2_eq_2 .

lemma classified_three:
  "map_non_null (balance_change_at [1000000000, 5, 7] [1500000000, 5, 6])
     (with_index [''A'', ''B'', ''C''])
   = [\<lparr>account = ''A'', change = ''0.5000''\<rparr>, \<lparr>account = ''C'', change = ''-0.0000''\<rparr>]"
  by (simp add: map_non_null_def with_index_def upt_rec balance_change_examples
        balance_change_example_equal balance_change_example_third)

text \<open>
  C3, as the specification states it, fails on the code. The change is computed in
  double precision as \<open>post / 10\<^sup>9 - pre / 10\<^sup>9\<close> and printed by \<open>toFixed(4)\<close>, so it is not
  a function of \<open>(post - pre) / 10\<^sup>9\<close>: the same difference of 150000 lamports prints as
  \<open>0.0001\<close> from a balance of 0 and as \<open>0.0002\<close> from a balance of 100000. Two balances
  of nine million SOL that differ by one lamport have the same quotient, and no entry is
  emitted for them. And an account index without balances gives an entry \<open>NaN\<close>.
\<close>

theorem C3_balance_changes_counterexample:
  "balanceChanges (parseTransactionType (balances_tx [''A''] [0] [150000]))
     = Some [\<lparr>account = ''A'', change = ''0.0001''\<rparr>]
   \<and> balanceChanges (parseTransactionType (balances_tx [''A''] [100000] [250000]))
     = Some [\<lparr>account = ''A'', change = ''0.0002''\<rparr>]
   \<and> balanceChanges
        (parseTransactionType (balances_tx [''A''] [9000000000000001] [9000000000000002]))
     = Some []
   \<and> balanceChanges (parseTransactionType (balances_tx [''A''] [] []))
     = Some [\<lparr>account = ''A'', change = ''NaN''\<rparr>]"
  by (intro conjI) (rule classified_examples)+

text \<open>
  C3, amended. For every transaction with metadata and message: the balance changes are
  the non-null results of the per-account callback, in the order of the account list
  (the accounts of the entries are a subsequence of the account list). At an index where
  both balance arrays have an entry: equal balances give no entry; different balances
  below \<open>2\<^sup>2\<^sup>3\<close> SOL give an entry whose change is \<open>toFixed(4)\<close> of the double
  \<open>post / 10\<^sup>9 - pre / 10\<^sup>9\<close>, a non-zero number within \<open>2\<^sup>-\<^sup>2\<^sup>9\<close> of
  \<open>(post - pre) / 10\<^sup>9\<close>. Equal balances alone give no entry, and 1.0 SOL before with
  1.5 SOL after gives the change \<open>0.5000\<close>.
\<close>

theorem C3_balance_changes:
  assumes "meta tx = Some m" and "transaction_message tx = Some msg"
    and "accs = map pubkey (accountKeys msg)"
    and "pre = or_empty (preBalances m)" and "post = or_empty (postBalances m)"
  shows "balanceChanges (parseTransactionType tx)
           = Some (map_non_null (balance_change_at pre post) (with_index accs))
    \<and> subseq (map account (map_non_null (balance_change_at pre post) (with_index accs))) accs
    \<and> (\<forall>i a. i < length pre \<and> i < length post \<longrightarrow>
          (pre ! i = post ! i \<longrightarrow> balance_change_at pre post (a, i) = None)
          \<and> (pre ! i \<noteq> post ! i \<and> pre ! i < 2 ^ 23 * 10 ^ 9 \<and> post ! i < 2 ^ 23 * 10 ^ 9 \<longrightarrow>
                balance_change_at pre post (a, i)
                  = Some \<lparr>account = a, change = toFixed4 (sol_change pre post i)\<rparr>
                \<and> (\<exists>c. sol_change pre post i = Fin c \<and> c \<noteq> 0
                      \<and> \<bar>c - (of_nat (post ! i) - of_nat (pre ! i)) / 1000000000\<bar> \<le> 1 / 2 ^ 29)))
    \<and> balanceChanges (parseTransactionType (balances_tx [b] [n] [n])) = Some []
    \<and> balanceChanges (parseTransactionType (balances_tx [b] [1000000000] [1500000000]))
        = Some [\<lparr>account = b, change = ''0.5000''\<rparr>]"
proof (intro conjI allI impI)
  show "balanceChanges (parseTransactionType tx)
           = Some (map_non_null (balance_change_at pre post) (with_index accs))"
    using assms by (simp add: classify_structural)
  show "subseq (map account (map_non_null (balance_change_at pre post) (with_index accs))) accs"
    by (rule changes_in_account_order)
  show "balanceChanges (parseTransactionType (balances_tx [b] [n] [n])) = Some []"
    by (rule classified_equal)
  show "balanceChanges (parseTransactionType (balances_tx [b] [1000000000] [1500000000]))
        = Some [\<lparr>account = b, change = ''0.5000''\<rparr>]"
    by (rule classified_examples)
next
  fix i a
  assume "i < length pre \<and> i < length post" and "pre ! i = post ! i"
  then show "balance_change_at pre post (a, i) = None"
    using sol_change_equal [of i pre post] by (simp add: balance_change_at_def)
next
  fix i a
  assume len: "i < length pre \<and> i < length post"
    and ne: "pre ! i \<noteq> post ! i \<and> pre ! i < 2 ^ 23 * 10 ^ 9 \<and> post ! i < 2 ^ 23 * 10 ^ 9"
  from len ne have ex: "\<exists>c. sol_change pre post i = Fin c \<and> c \<noteq> 0
      \<and> \<bar>c - (of_nat (post ! i) - of_nat (pre ! i)) / 1000000000\<bar> \<le> 1 / 2 ^ 29"
    by (intro sol_change_close) simp_all
  then show "\<exists>c. sol_change pre post i = Fin c \<and> c \<noteq> 0
      \<and> \<bar>c - (of_nat (post ! i) - of_nat (pre ! i)) / 1000000000\<bar> \<le> 1 / 2 ^ 29" .
  from ex obtain c where "sol_change pre post i = Fin c" "c \<noteq> 0"
    by blast
  then show "balance_change_at pre post (a, i)
                  = Some \<lparr>account = a, change = toFixed4 (sol_change pre post i)\<rparr>"
    by (simp add: balance_change_at_def)
qed

theorem C3_balance_changes_witness:
  "balanceChanges (parseTransactionType
      (balances_tx [''A'', ''B'', ''C''] [1000000000, 5, 7] [1500000000, 5, 6]))
     = Some [\<lparr>account = ''A'', change = ''0.5000''\<rparr>, \<lparr>account = ''C'', change = ''-0.0000''\<rparr>]"
proof -
  let ?m = "\<lparr>meta_err = JNull, logMessages = Some [], preBalances = Some [1000000000, 5, 7],
        postBalances = Some [1500000000, 5, 6], innerInstructions = None\<rparr>"
  let ?msg = "\<lparr>accountKeys = map (\<lambda>a. \<lparr>pubkey = a\<rparr>) [''A'', ''B'', ''C''], instructions = []\<rparr>"
  let ?tx = "balances_tx [''A'', ''B'', ''C''] [1000000000, 5, 7] [1500000000, 5, 6]"
  have h1: "meta ?tx = Some ?m"
    by (simp add: balances_tx_def)
  have h2: "transaction_message ?tx = Some ?msg"
    by (simp add: balances_tx_def)
  have h3: "[''A'', ''B'', ''C''] = map pubkey (accountKeys ?msg)"
    by simp
  have h4: "[1000000000, 5, 7] = or_empty (preBalances ?m)"
    by (simp add: or_empty_def)
  have h5: "[1500000000, 5, 6] = or_empty (postBalances ?m)"
    by (simp add: or_empty_def)
  from C3_balance_changes [OF h1 h2 h3 h4 h5]
  have "balanceChanges (parseTransactionType ?tx)
          = Some (map_non_null (balance_change_at [1000000000, 5, 7] [1500000000, 5, 6])
                    (with_index [''A'', ''B'', ''C'']))"
    by (rule conjunct1)
  then show ?thesis
    by (simp only: classified_three)
qed

end
